theory Spec2Isabelle
  imports Main "HOL-Library.AList"
begin

section \<open>Values of the host language\<close>

text \<open>
  The client of \<^verbatim>\<open>src/index.ts\<close> handles strings, numbers, booleans and plain objects.
  Strings are \<^typ>\<open>string\<close>. Every numeric parameter of the library is an integer in its
  data model (identifiers, depths, limits), so a number is an \<^typ>\<open>int\<close>, one that is a
  double; fractions, NaN and the infinities are outside this model. A plain object is an association list in
  insertion order, which is the order \<^verbatim>\<open>JSON.stringify\<close> walks.
\<close>

datatype json_value =
    JNull
  | JBool bool
  | JNumber int
  | JString string
  | JArray "json_value list"
  | JObject "(string \<times> json_value) list"

text \<open>
  A number of the host is a double. The integers among the doubles are the integers of
  magnitude below \<open>2 ^ 53\<close> and, beyond, those that have 53 significant bits;
  \<open>round_double\<close> takes a natural number to the nearest of them, ties to the even
  significand, and \<open>is_Number\<close> holds of the integers a caller can pass. (A result of
  \<open>2 ^ 1024\<close> stands for infinity.)
\<close>

fun bit_length :: "nat \<Rightarrow> nat" where
  "bit_length n = (if n = 0 then 0 else Suc (bit_length (n div 2)))"

declare bit_length.simps [simp del]

definition round_double :: "nat \<Rightarrow> nat" where
  "round_double c =
     (if c < 2 ^ 53 then c
      else
        (let e = bit_length c - 53; q = c div 2 ^ e; r = c mod 2 ^ e; half = 2 ^ (e - 1)
         in if half < r \<or> (r = half \<and> odd q) then (q + 1) * 2 ^ e else q * 2 ^ e))"


text \<open>
  String concatenation with a number (\<^verbatim>\<open>"/users/knowledge_base/" + kb_id + "/"\<close>) prints the
  number as \<^verbatim>\<open>Number::toString\<close> does in radix 10: with the fewest significant digits
  that still round to the number, the candidate nearest to it among those (the even one
  on a tie), then zeros up to 21 digits, and in exponent form beyond. \<open>shortest x m\<close>
  tries the multiples of \<open>10 ^ m\<close> on either side of \<open>x\<close>, from the fewest digits on.
  (An integer that is no double is never passed; nothing rounds to it, and its own digits
  are printed.)
\<close>

fun digits :: "nat \<Rightarrow> string" where
  "digits n =
     (if n < 10 then [''0123456789'' ! n]
      else digits (n div 10) @ [''0123456789'' ! (n mod 10)])"

declare digits.simps [simp del]

fun shortest :: "nat \<Rightarrow> nat \<Rightarrow> nat" where
  "shortest x m =
     (if m = 0 then x
      else
        (let p = 10 ^ m; lo = (x div p) * p; hi = lo + p;
             rlo = round_double lo; rhi = round_double hi
         in if rlo = x \<and> rhi = x then
              (if x - lo < hi - x then lo
               else if hi - x < x - lo then hi
               else if even (x div p) then lo else hi)
            else if rlo = x then lo
            else if rhi = x then hi
            else shortest x (m - 1)))"

declare shortest.simps [simp del]

definition exponent_form :: "string \<Rightarrow> string" where
  "exponent_form ds =
     (let sig = rev (dropWhile (\<lambda>d. d = CHR ''0'') (rev ds));
          ex = ''e+'' @ digits (length ds - 1)
      in if length sig = 1 then sig @ ex else hd sig # ''.'' @ tl sig @ ex)"

definition Number_toString :: "int \<Rightarrow> string" where
  "Number_toString i =
     (if i = 0 then ''0''
      else
        (let x = nat \<bar>i\<bar>;
             ds = digits (shortest x (length (digits x) - 1));
             out = (if length ds \<le> 21 then ds else exponent_form ds)
         in if i < 0 then ''-'' @ out else out))"

text \<open>
  An optional parameter is absent (\<open>None\<close>) or supplied. The guard \<^verbatim>\<open>if (x)\<close> tests
  truthiness: \<^verbatim>\<open>undefined\<close>, \<^verbatim>\<open>""\<close>, \<^verbatim>\<open>0\<close> and \<^verbatim>\<open>false\<close> are falsy.
\<close>

definition truthy_string :: "string option \<Rightarrow> bool" where
  "truthy_string x = (case x of None \<Rightarrow> False | Some s \<Rightarrow> s \<noteq> [])"

definition truthy_number :: "int option \<Rightarrow> bool" where
  "truthy_number x = (case x of None \<Rightarrow> False | Some n \<Rightarrow> n \<noteq> 0)"

definition truthy_boolean :: "bool option \<Rightarrow> bool" where
  "truthy_boolean x = (case x of None \<Rightarrow> False | Some b \<Rightarrow> b)"

text \<open>The statement \<^verbatim>\<open>if (x) body.k = x;\<close> for each of the three parameter types.\<close>

definition assign_string :: "string \<Rightarrow> string option \<Rightarrow> (string \<times> json_value) list \<Rightarrow> (string \<times> json_value) list" where
  "assign_string k x body =
     (case x of None \<Rightarrow> body
      | Some s \<Rightarrow> if s \<noteq> [] then AList.update k (JString s) body else body)"

definition assign_number :: "string \<Rightarrow> int option \<Rightarrow> (string \<times> json_value) list \<Rightarrow> (string \<times> json_value) list" where
  "assign_number k x body =
     (case x of None \<Rightarrow> body
      | Some n \<Rightarrow> if n \<noteq> 0 then AList.update k (JNumber n) body else body)"

definition assign_boolean :: "string \<Rightarrow> bool option \<Rightarrow> (string \<times> json_value) list \<Rightarrow> (string \<times> json_value) list" where
  "assign_boolean k x body =
     (case x of None \<Rightarrow> body
      | Some b \<Rightarrow> if b then AList.update k (JBool b) body else body)"

section \<open>The platform: requests, responses, promises\<close>

text \<open>
  A request is the pair of arguments of one \<^verbatim>\<open>fetch\<close> call. \<open>req_body\<close> holds the object
  handed to \<^verbatim>\<open>JSON.stringify\<close> (\<open>None\<close> when the call passes no body); the serialised
  text has one member per entry of that object, in the same order.
\<close>

record request =
  req_url :: string
  req_method :: string
  req_headers :: "(string \<times> string) list"
  req_body :: "json_value option"

text \<open>
  A response as the client reads it: the status code and status text, the body
  (\<open>None\<close> is \<^verbatim>\<open>null\<close>; otherwise the chunks the stream delivers, possibly none), and what
  \<^verbatim>\<open>response.json()\<close> resolves to (\<open>None\<close> when the body is not JSON text and the call
  rejects).
\<close>

record response =
  status :: nat
  statusText :: string
  body :: "string list option"
  json :: "json_value option"

text \<open>The getter \<^verbatim>\<open>response.ok\<close>: the status is in the range 200 to 299.\<close>

definition ok :: "response \<Rightarrow> bool" where
  "ok r = (200 \<le> status r \<and> status r \<le> 299)"

datatype exception =
    ValidationError string
  | TypeError
  | SyntaxError

datatype 'a promise = Fulfilled 'a | Rejected exception

text \<open>The union \<^verbatim>\<open>T | Error\<close> that the methods resolve to; \<open>Error\<close> carries the message.\<close>

datatype 'a or_Error = Value 'a | Error string

text \<open>
  What the library takes from its host: the \<^verbatim>\<open>URL\<close> constructor (\<open>URL_parses s\<close> holds when
  \<^verbatim>\<open>new URL(s)\<close> does not throw) and \<^verbatim>\<open>fetch\<close> (\<open>None\<close> is a network failure, which
  rejects with a \<^verbatim>\<open>TypeError\<close>).
\<close>

record platform =
  URL_parses :: "string \<Rightarrow> bool"
  fetch :: "request \<Rightarrow> response option"

definition call_fetch :: "platform \<Rightarrow> request \<Rightarrow> response promise" where
  "call_fetch env q = (case fetch env q of None \<Rightarrow> Rejected TypeError | Some r \<Rightarrow> Fulfilled r)"

text \<open>
  A method call yields the state of the promise it returns and the list of requests
  it handed to \<^verbatim>\<open>fetch\<close>, in order.
\<close>

type_synonym 'a effect = "'a promise \<times> request list"

section \<open>BaseClient and the shared helper\<close>

record BaseClient =
  headers :: "(string \<times> string) list"
  api_url :: string

definition BaseClient_new :: "string \<Rightarrow> string \<Rightarrow> BaseClient" where
  "BaseClient_new api_key url =
     \<lparr>headers = [(''Content-Type'', ''application/json''),
                 (''Accept'', ''application/json''),
                 (''Authorization'', api_key)],
      api_url = url\<rparr>"

definition safeFetchCall :: "response promise \<Rightarrow> json_value or_Error promise" where
  "safeFetchCall request =
     (case request of
        Rejected e \<Rightarrow> Rejected e
      | Fulfilled r \<Rightarrow>
          if \<not> ok r then Fulfilled (Error (statusText r))
          else (case json r of None \<Rightarrow> Rejected SyntaxError | Some v \<Rightarrow> Fulfilled (Value v)))"

section \<open>KnowledgeBaseClient\<close>

definition KnowledgeBaseClient_create :: "BaseClient \<Rightarrow> platform \<Rightarrow> string \<Rightarrow> json_value or_Error effect" where
  "KnowledgeBaseClient_create c env name =
     (let methodPath = api_url c @ ''/users/knowledge_base/'';
          q = \<lparr>req_url = methodPath, req_method = ''POST'', req_headers = headers c,
               req_body = Some (JObject [(''name'', JString name)])\<rparr>
      in (safeFetchCall (call_fetch env q), [q]))"

definition KnowledgeBaseClient_get :: "BaseClient \<Rightarrow> platform \<Rightarrow> int \<Rightarrow> json_value or_Error effect" where
  "KnowledgeBaseClient_get c env kb_id =
     (let methodPath = api_url c @ ''/users/knowledge_base/'' @ Number_toString kb_id @ ''/'';
          q = \<lparr>req_url = methodPath, req_method = ''GET'', req_headers = headers c,
               req_body = None\<rparr>
      in (safeFetchCall (call_fetch env q), [q]))"

definition KnowledgeBaseClient_delete :: "BaseClient \<Rightarrow> platform \<Rightarrow> int \<Rightarrow> json_value or_Error effect" where
  "KnowledgeBaseClient_delete c env kb_id =
     (let methodPath = api_url c @ ''/knowledge_base/'' @ Number_toString kb_id @ ''/'';
          q = \<lparr>req_url = methodPath, req_method = ''DELETE'', req_headers = headers c,
               req_body = None\<rparr>
      in (safeFetchCall (call_fetch env q), [q]))"

section \<open>KnowledgeClient\<close>

definition isValidURL :: "platform \<Rightarrow> string \<Rightarrow> bool" where
  "isValidURL env str = (if URL_parses env str then True else False)"

definition KnowledgeClient_create ::
  "BaseClient \<Rightarrow> platform \<Rightarrow> string \<Rightarrow> string \<Rightarrow> int \<Rightarrow> string option \<Rightarrow> string option \<Rightarrow>
   bool option \<Rightarrow> int option \<Rightarrow> bool option \<Rightarrow> json_value or_Error effect" where
  "KnowledgeClient_create c env method name kb_id url text recursion max_recursion only_base_url =
     (let body0 = [(''name'', JString name)] in
      if method = ''url'' then
        (case url of
           None \<Rightarrow> (Rejected (ValidationError ''Invalid or missing URL.''), [])
         | Some u \<Rightarrow>
             if u = [] \<or> \<not> isValidURL env u
             then (Rejected (ValidationError ''Invalid or missing URL.''), [])
             else
               (let methodPath = api_url c @ ''/users/knowledge_base/'' @ Number_toString kb_id
                                 @ ''/knowledge_from_url/'';
                    body1 = AList.update ''url'' (JString u) body0;
                    body2 = assign_boolean ''recursion'' recursion body1;
                    body3 = assign_number ''max_recursion'' max_recursion body2;
                    body4 = assign_boolean ''only_base_url'' only_base_url body3;
                    q = \<lparr>req_url = methodPath, req_method = ''POST'', req_headers = headers c,
                         req_body = Some (JObject body4)\<rparr>
                in (safeFetchCall (call_fetch env q), [q])))
      else if method = ''text'' then
        (case text of
           None \<Rightarrow> (Rejected (ValidationError ''Missing text.''), [])
         | Some t \<Rightarrow>
             if t = [] then (Rejected (ValidationError ''Missing text.''), [])
             else
               (let methodPath = api_url c @ ''/users/knowledge_base/'' @ Number_toString kb_id
                                 @ ''/knowledge_from_text/'';
                    body1 = AList.update ''text'' (JString t) body0;
                    q = \<lparr>req_url = methodPath, req_method = ''POST'', req_headers = headers c,
                         req_body = Some (JObject body1)\<rparr>
                in (safeFetchCall (call_fetch env q), [q])))
      else (Rejected (ValidationError ''Invalid method. Must be 'url', 'text', or 'path'.''), []))"

definition KnowledgeClient_get :: "BaseClient \<Rightarrow> platform \<Rightarrow> int \<Rightarrow> json_value or_Error effect" where
  "KnowledgeClient_get c env knowledge_id =
     (let methodPath = api_url c @ ''/knowledge/'' @ Number_toString knowledge_id @ ''/'';
          q = \<lparr>req_url = methodPath, req_method = ''GET'', req_headers = headers c,
               req_body = None\<rparr>
      in (safeFetchCall (call_fetch env q), [q]))"

definition KnowledgeClient_delete :: "BaseClient \<Rightarrow> platform \<Rightarrow> int \<Rightarrow> json_value or_Error effect" where
  "KnowledgeClient_delete c env knowledge_id =
     (let methodPath = api_url c @ ''/knowledge/'' @ Number_toString knowledge_id @ ''/'';
          q = \<lparr>req_url = methodPath, req_method = ''DELETE'', req_headers = headers c,
               req_body = None\<rparr>
      in (safeFetchCall (call_fetch env q), [q]))"

section \<open>ReplyClient\<close>

text \<open>
  \<open>create\<close> resolves to the response itself, \<open>stream\<close> to a
  \<^verbatim>\<open>StreamingTextResponse\<close> built on the response's body stream.
\<close>

datatype reply_value =
    Response response
  | StreamingTextResponse "string list"

definition reply_body ::
  "string \<Rightarrow> int option \<Rightarrow> string option \<Rightarrow> int option \<Rightarrow> int option \<Rightarrow> string option \<Rightarrow>
   (string \<times> json_value) list" where
  "reply_body prompt conversation_id knowledge_base max_tokens num_results model =
     (let body0 = [(''user_prompt'', JString prompt)];
          body1 = assign_number ''conversation_id'' conversation_id body0;
          body2 = assign_string ''knowledge_base'' knowledge_base body1;
          body3 = assign_number ''max_tokens'' max_tokens body2;
          body4 = assign_number ''num_results'' num_results body3;
          body5 = assign_string ''model'' model body4
      in body5)"

definition ReplyClient_create ::
  "BaseClient \<Rightarrow> platform \<Rightarrow> string \<Rightarrow> int option \<Rightarrow> string option \<Rightarrow> int option \<Rightarrow> int option \<Rightarrow>
   string option \<Rightarrow> reply_value or_Error effect" where
  "ReplyClient_create c env prompt conversation_id knowledge_base max_tokens num_results model =
     (let methodPath = api_url c @ ''/response/'';
          updatedHeadersForStream = AList.update ''Accept'' ''application/json'' (headers c);
          b = reply_body prompt conversation_id knowledge_base max_tokens num_results model;
          q = \<lparr>req_url = methodPath, req_method = ''POST'',
               req_headers = updatedHeadersForStream, req_body = Some (JObject b)\<rparr>
      in (case call_fetch env q of
            Rejected e \<Rightarrow> Rejected e
          | Fulfilled r \<Rightarrow>
              (case body r of
                 None \<Rightarrow> Fulfilled (Error ''No response body.'')
               | Some chunks \<Rightarrow> Fulfilled (Value (Response r))),
          [q]))"

definition ReplyClient_stream ::
  "BaseClient \<Rightarrow> platform \<Rightarrow> string \<Rightarrow> int option \<Rightarrow> string option \<Rightarrow> int option \<Rightarrow> int option \<Rightarrow>
   string option \<Rightarrow> reply_value or_Error effect" where
  "ReplyClient_stream c env prompt conversation_id knowledge_base max_tokens num_results model =
     (let methodPath = api_url c @ ''/response_stream/'';
          updatedHeadersForStream = AList.update ''Accept'' ''text/response-stream'' (headers c);
          b = reply_body prompt conversation_id knowledge_base max_tokens num_results model;
          q = \<lparr>req_url = methodPath, req_method = ''POST'',
               req_headers = updatedHeadersForStream, req_body = Some (JObject b)\<rparr>
      in (case call_fetch env q of
            Rejected e \<Rightarrow> Rejected e
          | Fulfilled r \<Rightarrow>
              (case body r of
                 None \<Rightarrow> Fulfilled (Error ''No response body.'')
               | Some chunks \<Rightarrow> Fulfilled (Value (StreamingTextResponse chunks))),
          [q]))"

section \<open>The factory\<close>

record facade =
  KnowledgeBase :: BaseClient
  Knowledge :: BaseClient
  Reply :: BaseClient

definition pai :: "string \<Rightarrow> facade" where
  "pai api_key =
     (let url = ''https://api.prism-ai.ch'' in
      \<lparr>KnowledgeBase = BaseClient_new api_key url,
       Knowledge = BaseClient_new api_key url,
       Reply = BaseClient_new api_key url\<rparr>)"

section \<open>Vocabulary of the properties\<close>


definition header :: "request \<Rightarrow> string \<Rightarrow> string option" where
  "header q k = map_of (req_headers q) k"

definition carries :: "string \<Rightarrow> string \<Rightarrow> request \<Rightarrow> bool" where
  "carries api_key accept q =
     (header q ''Content-Type'' = Some ''application/json'' \<and>
      header q ''Authorization'' = Some api_key \<and>
      header q ''Accept'' = Some accept)"

text \<open>The member names of the object a request serialises; none when it has no body.\<close>

definition body_keys :: "request \<Rightarrow> string list" where
  "body_keys q = (case req_body q of Some (JObject ms) \<Rightarrow> map fst ms | _ \<Rightarrow> [])"

text \<open>
  The members an optional parameter contributes to a body, read off the specification:
  one member when the parameter is supplied with a truthy value, none otherwise.
\<close>

definition member_string :: "string \<Rightarrow> string option \<Rightarrow> (string \<times> json_value) list" where
  "member_string k x = (if truthy_string x then [(k, JString (the x))] else [])"

definition member_number :: "string \<Rightarrow> int option \<Rightarrow> (string \<times> json_value) list" where
  "member_number k x = (if truthy_number x then [(k, JNumber (the x))] else [])"

definition member_boolean :: "string \<Rightarrow> bool option \<Rightarrow> (string \<times> json_value) list" where
  "member_boolean k x = (if truthy_boolean x then [(k, JBool True)] else [])"

text \<open>
  Hosts for concrete evaluation. Their URL parser accepts exactly the strings that
  start with \<^verbatim>\<open>https://\<close> and go on; \<open>server r\<close> answers every request with \<open>r\<close>,
  \<open>offline\<close> fails every request.
\<close>

definition sample_parser :: "string \<Rightarrow> bool" where
  "sample_parser s = (take 8 s = ''https://'' \<and> 8 < length s)"

definition server :: "response \<Rightarrow> platform" where
  "server r = \<lparr>URL_parses = sample_parser, fetch = (\<lambda>q. Some r)\<rparr>"

definition offline :: platform where
  "offline = \<lparr>URL_parses = sample_parser, fetch = (\<lambda>q. None)\<rparr>"

text \<open>
  \<open>answered env e r\<close>: the call \<open>e\<close> handed at least one request to \<^verbatim>\<open>fetch\<close>, and the
  network resolved each with the response \<open>r\<close>.
\<close>

definition answered :: "platform \<Rightarrow> 'a effect \<Rightarrow> response \<Rightarrow> bool" where
  "answered env e r = (snd e \<noteq> [] \<and> list_all (\<lambda>q. fetch env q = Some r) (snd e))"

text \<open>
  The decimal numeral of an integer, read off the specification's \<^verbatim>\<open>{kb_id}\<close>: a minus
  sign for a negative integer, then the digits, most significant first, the digit \<open>d\<close>
  being the character of code \<open>48 + d\<close>. \<open>read_int\<close> reads a numeral back.
\<close>

definition decimal_digit :: "nat \<Rightarrow> char" where
  "decimal_digit d = char_of (48 + d)"

fun decimal_nat :: "nat \<Rightarrow> string" where
  "decimal_nat n =
     (if n < 10 then [decimal_digit n]
      else decimal_nat (n div 10) @ [decimal_digit (n mod 10)])"

declare decimal_nat.simps [simp del]

definition decimal :: "int \<Rightarrow> string" where
  "decimal i = (if i < 0 then CHR ''-'' # decimal_nat (nat (- i)) else decimal_nat (nat i))"

definition digit_value :: "char \<Rightarrow> nat" where
  "digit_value c = of_char c - 48"

definition read_nat :: "string \<Rightarrow> nat" where
  "read_nat s = foldl (\<lambda>a c. 10 * a + digit_value c) 0 s"

definition read_int :: "string \<Rightarrow> int" where
  "read_int s = (case s of [] \<Rightarrow> 0 | c # cs \<Rightarrow> if c = CHR ''-'' then - int (read_nat cs) else int (read_nat s))"

section \<open>Printing a number\<close>












lemma digit_value_decimal_digit: "d < 10 \<Longrightarrow> digit_value (decimal_digit d) = d"
  by (simp add: digit_value_def decimal_digit_def)

lemma read_nat_snoc: "read_nat (s @ [c]) = 10 * read_nat s + digit_value c"
  by (simp add: read_nat_def)

lemma read_nat_decimal_nat: "read_nat (decimal_nat n) = n"
proof (induction n rule: decimal_nat.induct)
  case (1 n)
  show ?case
  proof (cases "n < 10")
    case True
    then show ?thesis
      by (subst decimal_nat.simps) (simp add: read_nat_def digit_value_decimal_digit)
  next
    case False
    with 1 have "read_nat (decimal_nat (n div 10)) = n div 10" by simp
    with False show ?thesis
      by (subst decimal_nat.simps) (simp add: read_nat_snoc digit_value_decimal_digit)
  qed
qed

lemma decimal_nat_not_minus: "decimal_nat n \<noteq> [] \<and> hd (decimal_nat n) \<noteq> CHR ''-''"
proof (induction n rule: decimal_nat.induct)
  case (1 n)
  show ?case
  proof (cases "n < 10")
    case True
    then have "decimal_nat n = [decimal_digit n]" by (subst decimal_nat.simps) simp
    moreover have "of_char (decimal_digit n) \<noteq> (45::nat)" using True
      by (simp add: decimal_digit_def)
    then have "decimal_digit n \<noteq> CHR ''-''" by auto
    ultimately show ?thesis by simp
  next
    case False
    with 1 have "decimal_nat (n div 10) \<noteq> [] \<and> hd (decimal_nat (n div 10)) \<noteq> CHR ''-''"
      by simp
    with False show ?thesis by (subst (1 2) decimal_nat.simps) simp
  qed
qed

lemma read_int_decimal: "read_int (decimal i) = i"
proof (cases "i < 0")
  case True
  then show ?thesis by (simp add: read_int_def decimal_def read_nat_decimal_nat)
next
  case False
  obtain c cs where "decimal_nat (nat i) = c # cs" and "c \<noteq> CHR ''-''"
    using decimal_nat_not_minus [of "nat i"] by (cases "decimal_nat (nat i)") auto
  with False read_nat_decimal_nat [of "nat i"] show ?thesis
    by (simp add: read_int_def decimal_def)
qed
















section \<open>Request bodies, member by member\<close>

lemma update_fresh: "k \<notin> fst ` set al \<Longrightarrow> AList.update k v al = al @ [(k, v)]"
  by (induction al) auto

lemma keys_member_string: "fst ` set (member_string k x) = (if truthy_string x then {k} else {})"
  by (simp add: member_string_def)

lemma keys_member_number: "fst ` set (member_number k x) = (if truthy_number x then {k} else {})"
  by (simp add: member_number_def)

lemma keys_member_boolean: "fst ` set (member_boolean k x) = (if truthy_boolean x then {k} else {})"
  by (simp add: member_boolean_def)

lemmas keys_member = keys_member_string keys_member_number keys_member_boolean

lemma assign_string_fresh:
  "k \<notin> fst ` set b \<Longrightarrow> assign_string k x b = b @ member_string k x"
  by (simp add: assign_string_def member_string_def truthy_string_def update_fresh
      split: option.splits)

lemma assign_number_fresh:
  "k \<notin> fst ` set b \<Longrightarrow> assign_number k x b = b @ member_number k x"
  by (simp add: assign_number_def member_number_def truthy_number_def update_fresh
      split: option.splits)

lemma assign_boolean_fresh:
  "k \<notin> fst ` set b \<Longrightarrow> assign_boolean k x b = b @ member_boolean k x"
  by (simp add: assign_boolean_def member_boolean_def truthy_boolean_def update_fresh
      split: option.splits)

lemma reply_body_members:
  "reply_body prompt conversation_id knowledge_base max_tokens num_results model =
     (''user_prompt'', JString prompt)
       # member_number ''conversation_id'' conversation_id
       @ member_string ''knowledge_base'' knowledge_base
       @ member_number ''max_tokens'' max_tokens
       @ member_number ''num_results'' num_results
       @ member_string ''model'' model"
  by (simp add: reply_body_def Let_def assign_string_fresh assign_number_fresh image_Un
      keys_member)

lemma KnowledgeClient_create_url:
  assumes "u \<noteq> []" and "URL_parses env u"
  shows "KnowledgeClient_create c env ''url'' name kb_id (Some u) text recursion max_recursion
           only_base_url =
     (let q = \<lparr>req_url = api_url c @ ''/users/knowledge_base/'' @ Number_toString kb_id
                          @ ''/knowledge_from_url/'',
                req_method = ''POST'', req_headers = headers c,
                req_body = Some (JObject ((''name'', JString name) # (''url'', JString u)
                   # member_boolean ''recursion'' recursion
                   @ member_number ''max_recursion'' max_recursion
                   @ member_boolean ''only_base_url'' only_base_url))\<rparr>
      in (safeFetchCall (call_fetch env q), [q]))"
  using assms
  by (simp add: KnowledgeClient_create_def isValidURL_def Let_def assign_boolean_fresh
      assign_number_fresh image_Un keys_member)

lemma KnowledgeClient_create_text:
  assumes "t \<noteq> []"
  shows "KnowledgeClient_create c env ''text'' name kb_id url (Some t) recursion max_recursion
           only_base_url =
     (let q = \<lparr>req_url = api_url c @ ''/users/knowledge_base/'' @ Number_toString kb_id
                          @ ''/knowledge_from_text/'',
                req_method = ''POST'', req_headers = headers c,
                req_body = Some (JObject [(''name'', JString name), (''text'', JString t)])\<rparr>
      in (safeFetchCall (call_fetch env q), [q]))"
  using assms
  by (simp add: KnowledgeClient_create_def Let_def)

section \<open>One request, one response\<close>

lemma KnowledgeClient_create_cases:
  "KnowledgeClient_create c env method name kb_id url text recursion max_recursion only_base_url =
     (if method = ''url'' then
        (if truthy_string url \<and> URL_parses env (the url)
         then KnowledgeClient_create c env ''url'' name kb_id (Some (the url)) text recursion max_recursion only_base_url
         else (Rejected (ValidationError ''Invalid or missing URL.''), []))
      else if method = ''text'' then
        (if truthy_string text
         then KnowledgeClient_create c env ''text'' name kb_id url (Some (the text)) recursion max_recursion only_base_url
         else (Rejected (ValidationError ''Missing text.''), []))
      else (Rejected (ValidationError ''Invalid method. Must be 'url', 'text', or 'path'.''), []))"
  by (auto simp: KnowledgeClient_create_def isValidURL_def truthy_string_def split: option.splits)

lemma answered_single: "answered env (p, [q]) r = (fetch env q = Some r)"
  by (simp add: answered_def)

lemma answered_none: "\<not> answered env (p, []) r"
  by (simp add: answered_def)

lemma call_fetch_Some: "fetch env q = Some r \<Longrightarrow> call_fetch env q = Fulfilled r"
  by (simp add: call_fetch_def)

lemma KnowledgeBaseClient_create_answered:
  "answered env (KnowledgeBaseClient_create c env name) r \<Longrightarrow>
   fst (KnowledgeBaseClient_create c env name) = safeFetchCall (Fulfilled r)"
  by (simp add: KnowledgeBaseClient_create_def Let_def answered_single call_fetch_Some)

lemma KnowledgeBaseClient_get_answered:
  "answered env (KnowledgeBaseClient_get c env kb_id) r \<Longrightarrow>
   fst (KnowledgeBaseClient_get c env kb_id) = safeFetchCall (Fulfilled r)"
  by (simp add: KnowledgeBaseClient_get_def Let_def answered_single call_fetch_Some)

lemma KnowledgeBaseClient_delete_answered:
  "answered env (KnowledgeBaseClient_delete c env kb_id) r \<Longrightarrow>
   fst (KnowledgeBaseClient_delete c env kb_id) = safeFetchCall (Fulfilled r)"
  by (simp add: KnowledgeBaseClient_delete_def Let_def answered_single call_fetch_Some)

lemma KnowledgeClient_get_answered:
  "answered env (KnowledgeClient_get c env knowledge_id) r \<Longrightarrow>
   fst (KnowledgeClient_get c env knowledge_id) = safeFetchCall (Fulfilled r)"
  by (simp add: KnowledgeClient_get_def Let_def answered_single call_fetch_Some)

lemma KnowledgeClient_delete_answered:
  "answered env (KnowledgeClient_delete c env knowledge_id) r \<Longrightarrow>
   fst (KnowledgeClient_delete c env knowledge_id) = safeFetchCall (Fulfilled r)"
  by (simp add: KnowledgeClient_delete_def Let_def answered_single call_fetch_Some)

lemma KnowledgeClient_create_answered:
  assumes "answered env (KnowledgeClient_create c env method name kb_id url text recursion
             max_recursion only_base_url) r"
  shows "fst (KnowledgeClient_create c env method name kb_id url text recursion max_recursion
             only_base_url) = safeFetchCall (Fulfilled r)"
proof (cases "method = ''url''")
  case True
  show ?thesis
  proof (cases "truthy_string url \<and> URL_parses env (the url)")
    case valid: True
    then have "the url \<noteq> []" and "URL_parses env (the url)"
      by (auto simp: truthy_string_def split: option.splits)
    note shape = KnowledgeClient_create_url [OF this]
    from assms show ?thesis
      by (subst KnowledgeClient_create_cases, subst (asm) KnowledgeClient_create_cases)
         (simp add: True valid shape Let_def answered_single call_fetch_Some)
  next
    case False
    with assms True show ?thesis
      by (subst (asm) KnowledgeClient_create_cases) (simp add: answered_none)
  qed
next
  case not_url: False
  show ?thesis
  proof (cases "method = ''text''")
    case True
    show ?thesis
    proof (cases "truthy_string text")
      case valid: True
      then have "the text \<noteq> []"
        by (auto simp: truthy_string_def split: option.splits)
      note shape = KnowledgeClient_create_text [OF this]
      from assms show ?thesis
        by (subst KnowledgeClient_create_cases, subst (asm) KnowledgeClient_create_cases)
           (simp add: True valid shape Let_def answered_single call_fetch_Some)
    next
      case False
      with assms True show ?thesis
        by (subst (asm) KnowledgeClient_create_cases) (simp add: answered_none)
    qed
  next
    case False
    with assms not_url show ?thesis
      by (subst (asm) KnowledgeClient_create_cases) (simp add: answered_none)
  qed
qed

lemma ReplyClient_create_answered:
  "answered env (ReplyClient_create c env prompt conversation_id knowledge_base max_tokens
      num_results model) r \<Longrightarrow>
   fst (ReplyClient_create c env prompt conversation_id knowledge_base max_tokens num_results
      model) =
     (case body r of None \<Rightarrow> Fulfilled (Error ''No response body.'')
      | Some chunks \<Rightarrow> Fulfilled (Value (Response r)))"
  by (simp add: ReplyClient_create_def Let_def answered_single call_fetch_Some)

lemma ReplyClient_stream_answered:
  "answered env (ReplyClient_stream c env prompt conversation_id knowledge_base max_tokens
      num_results model) r \<Longrightarrow>
   fst (ReplyClient_stream c env prompt conversation_id knowledge_base max_tokens num_results
      model) =
     (case body r of None \<Rightarrow> Fulfilled (Error ''No response body.'')
      | Some chunks \<Rightarrow> Fulfilled (Value (StreamingTextResponse chunks)))"
  by (simp add: ReplyClient_stream_def Let_def answered_single call_fetch_Some)

section \<open>The requests each operation issues\<close>

lemma KnowledgeBaseClient_create_requests:
  "snd (KnowledgeBaseClient_create c env name) =
     [\<lparr>req_url = api_url c @ ''/users/knowledge_base/'', req_method = ''POST'',
       req_headers = headers c, req_body = Some (JObject [(''name'', JString name)])\<rparr>]"
  by (simp add: KnowledgeBaseClient_create_def Let_def)

lemma KnowledgeBaseClient_get_requests:
  "snd (KnowledgeBaseClient_get c env kb_id) =
     [\<lparr>req_url = api_url c @ ''/users/knowledge_base/'' @ Number_toString kb_id @ ''/'',
       req_method = ''GET'', req_headers = headers c, req_body = None\<rparr>]"
  by (simp add: KnowledgeBaseClient_get_def Let_def)

lemma KnowledgeBaseClient_delete_requests:
  "snd (KnowledgeBaseClient_delete c env kb_id) =
     [\<lparr>req_url = api_url c @ ''/knowledge_base/'' @ Number_toString kb_id @ ''/'',
       req_method = ''DELETE'', req_headers = headers c, req_body = None\<rparr>]"
  by (simp add: KnowledgeBaseClient_delete_def Let_def)

lemma KnowledgeClient_get_requests:
  "snd (KnowledgeClient_get c env knowledge_id) =
     [\<lparr>req_url = api_url c @ ''/knowledge/'' @ Number_toString knowledge_id @ ''/'',
       req_method = ''GET'', req_headers = headers c, req_body = None\<rparr>]"
  by (simp add: KnowledgeClient_get_def Let_def)

lemma KnowledgeClient_delete_requests:
  "snd (KnowledgeClient_delete c env knowledge_id) =
     [\<lparr>req_url = api_url c @ ''/knowledge/'' @ Number_toString knowledge_id @ ''/'',
       req_method = ''DELETE'', req_headers = headers c, req_body = None\<rparr>]"
  by (simp add: KnowledgeClient_delete_def Let_def)

lemma ReplyClient_create_requests:
  "snd (ReplyClient_create c env prompt conversation_id knowledge_base max_tokens num_results
     model) =
     [\<lparr>req_url = api_url c @ ''/response/'', req_method = ''POST'',
       req_headers = AList.update ''Accept'' ''application/json'' (headers c),
       req_body = Some (JObject (reply_body prompt conversation_id knowledge_base max_tokens
         num_results model))\<rparr>]"
  by (simp add: ReplyClient_create_def Let_def)

lemma ReplyClient_stream_requests:
  "snd (ReplyClient_stream c env prompt conversation_id knowledge_base max_tokens num_results
     model) =
     [\<lparr>req_url = api_url c @ ''/response_stream/'', req_method = ''POST'',
       req_headers = AList.update ''Accept'' ''text/response-stream'' (headers c),
       req_body = Some (JObject (reply_body prompt conversation_id knowledge_base max_tokens
         num_results model))\<rparr>]"
  by (simp add: ReplyClient_stream_def Let_def)

text \<open>
  \<open>KnowledgeClient.create\<close> issues no request when validation fails, and otherwise the
  one request of the selected mode.
\<close>

lemma KnowledgeClient_create_requests:
  "snd (KnowledgeClient_create c env method name kb_id url text recursion max_recursion
     only_base_url) =
     (if method = ''url'' \<and> truthy_string url \<and> URL_parses env (the url) then
        [\<lparr>req_url = api_url c @ ''/users/knowledge_base/'' @ Number_toString kb_id
                    @ ''/knowledge_from_url/'',
          req_method = ''POST'', req_headers = headers c,
          req_body = Some (JObject ((''name'', JString name) # (''url'', JString (the url))
             # member_boolean ''recursion'' recursion
             @ member_number ''max_recursion'' max_recursion
             @ member_boolean ''only_base_url'' only_base_url))\<rparr>]
      else if method = ''text'' \<and> truthy_string text then
        [\<lparr>req_url = api_url c @ ''/users/knowledge_base/'' @ Number_toString kb_id
                    @ ''/knowledge_from_text/'',
          req_method = ''POST'', req_headers = headers c,
          req_body = Some (JObject [(''name'', JString name), (''text'', JString (the text))])\<rparr>]
      else [])"
proof -
  have url_mode: "truthy_string url \<and> URL_parses env (the url) \<Longrightarrow>
      KnowledgeClient_create c env ''url'' name kb_id (Some (the url)) text recursion
        max_recursion only_base_url =
      (let q = \<lparr>req_url = api_url c @ ''/users/knowledge_base/'' @ Number_toString kb_id
                          @ ''/knowledge_from_url/'',
                req_method = ''POST'', req_headers = headers c,
                req_body = Some (JObject ((''name'', JString name) # (''url'', JString (the url))
                   # member_boolean ''recursion'' recursion
                   @ member_number ''max_recursion'' max_recursion
                   @ member_boolean ''only_base_url'' only_base_url))\<rparr>
       in (safeFetchCall (call_fetch env q), [q]))"
    by (rule KnowledgeClient_create_url) (auto simp: truthy_string_def split: option.splits)
  have text_mode: "truthy_string text \<Longrightarrow>
      KnowledgeClient_create c env ''text'' name kb_id url (Some (the text)) recursion
        max_recursion only_base_url =
      (let q = \<lparr>req_url = api_url c @ ''/users/knowledge_base/'' @ Number_toString kb_id
                          @ ''/knowledge_from_text/'',
                req_method = ''POST'', req_headers = headers c,
                req_body = Some (JObject [(''name'', JString name), (''text'', JString (the text))])\<rparr>
       in (safeFetchCall (call_fetch env q), [q]))"
    by (rule KnowledgeClient_create_text) (auto simp: truthy_string_def split: option.splits)
  show ?thesis
    by (subst KnowledgeClient_create_cases) (simp add: url_mode text_mode Let_def)
qed

section \<open>Headers of a constructed client\<close>

lemma carries_default:
  "carries api_key ''application/json''
     \<lparr>req_url = a, req_method = m, req_headers = headers (BaseClient_new api_key url),
      req_body = b\<rparr>"
  by (simp add: carries_def header_def BaseClient_new_def)

section \<open>The properties of the specification\<close>

text \<open>
  C1. \<open>KnowledgeClient.create\<close> with method \<^verbatim>\<open>"url"\<close>: when the url argument is absent,
  is the empty string, or is a string the URL parser refuses, the call fails with the
  validation error \<^verbatim>\<open>Invalid or missing URL.\<close> and hands no request to \<^verbatim>\<open>fetch\<close>. The
  method is \<^verbatim>\<open>async\<close>: the error is thrown while the call runs, before any \<^verbatim>\<open>await\<close>, and
  reaches the caller as the rejection of the promise returned.
\<close>

theorem create_url_rejects_bad_url:
  assumes "url = None \<or> url = Some [] \<or> (\<exists>u. url = Some u \<and> \<not> URL_parses env u)"
  shows "KnowledgeClient_create c env ''url'' name kb_id url text recursion max_recursion
           only_base_url =
         (Rejected (ValidationError ''Invalid or missing URL.''), [])"
  using assms by (auto simp: KnowledgeClient_create_def isValidURL_def)

text \<open>
  C1, at concrete inputs: the url omitted, and the url \<^verbatim>\<open>not a url\<close>.
\<close>

theorem create_url_rejects_bad_url_witness:
  "KnowledgeClient_create (Knowledge (pai ''key'')) offline ''url'' ''doc'' 7 None None None None
     None = (Rejected (ValidationError ''Invalid or missing URL.''), []) \<and>
   \<not> URL_parses offline ''not a url'' \<and>
   KnowledgeClient_create (Knowledge (pai ''key'')) offline ''url'' ''doc'' 7 (Some ''not a url'')
     None (Some True) None None = (Rejected (ValidationError ''Invalid or missing URL.''), [])"
  using create_url_rejects_bad_url [of None offline "Knowledge (pai ''key'')" "''doc''" 7 None None None None]
    create_url_rejects_bad_url [of "Some ''not a url''" offline "Knowledge (pai ''key'')" "''doc''" 7 None "Some True" None None]
  by (simp add: offline_def sample_parser_def)

text \<open>
  C2. \<open>KnowledgeClient.create\<close> with method \<^verbatim>\<open>"text"\<close>: when the text argument is omitted
  or is the empty string, the call fails with the validation error \<^verbatim>\<open>Missing text.\<close> and
  hands no request to \<^verbatim>\<open>fetch\<close>.
\<close>

theorem create_text_rejects_missing_text:
  assumes "text = None \<or> text = Some []"
  shows "KnowledgeClient_create c env ''text'' name kb_id url text recursion max_recursion
           only_base_url =
         (Rejected (ValidationError ''Missing text.''), [])"
  using assms by (auto simp: KnowledgeClient_create_def)

text \<open>
  C2, at concrete inputs: the text omitted, and the text empty.
\<close>

theorem create_text_rejects_missing_text_witness:
  "KnowledgeClient_create (Knowledge (pai ''key'')) offline ''text'' ''doc'' 7 None None None None
     None = (Rejected (ValidationError ''Missing text.''), []) \<and>
   KnowledgeClient_create (Knowledge (pai ''key'')) offline ''text'' ''doc'' 7
     (Some ''https://example.com/'') (Some '''') None None None =
     (Rejected (ValidationError ''Missing text.''), [])"
  using create_text_rejects_missing_text [of None "Knowledge (pai ''key'')" offline "''doc''" 7 None None None None]
    create_text_rejects_missing_text [of "Some ''''" "Knowledge (pai ''key'')" offline "''doc''" 7 "Some ''https://example.com/''" None None None]
  by simp

text \<open>
  C3. \<open>KnowledgeClient.create\<close> with any method other than \<^verbatim>\<open>"url"\<close> and \<^verbatim>\<open>"text"\<close> fails with
  a validation error whose message lists the methods \<^verbatim>\<open>'url'\<close>, \<^verbatim>\<open>'text'\<close> and \<^verbatim>\<open>'path'\<close>, and
  hands no request to \<^verbatim>\<open>fetch\<close>. The method \<^verbatim>\<open>"path"\<close> is among those refused.
\<close>

theorem create_rejects_other_methods:
  assumes "method \<noteq> ''url''" and "method \<noteq> ''text''"
  shows "KnowledgeClient_create c env method name kb_id url text recursion max_recursion
           only_base_url =
         (Rejected (ValidationError ''Invalid method. Must be 'url', 'text', or 'path'.''), [])"
  using assms by (simp add: KnowledgeClient_create_def)

text \<open>
  C3, at the methods \<^verbatim>\<open>"path"\<close> and \<^verbatim>\<open>"bogus"\<close>.
\<close>

theorem create_rejects_other_methods_witness:
  "KnowledgeClient_create (Knowledge (pai ''key'')) offline ''path'' ''doc'' 7
     (Some ''https://example.com/'') (Some ''some text'') None None None =
     (Rejected (ValidationError ''Invalid method. Must be 'url', 'text', or 'path'.''), []) \<and>
   KnowledgeClient_create (Knowledge (pai ''key'')) offline ''bogus'' ''doc'' 7 None None None None
     None =
     (Rejected (ValidationError ''Invalid method. Must be 'url', 'text', or 'path'.''), [])"
  using create_rejects_other_methods [of "''path''" "Knowledge (pai ''key'')" offline "''doc''" 7 "Some ''https://example.com/''" "Some ''some text''" None None None]
    create_rejects_other_methods [of "''bogus''" "Knowledge (pai ''key'')" offline "''doc''" 7 None None None None None]
  by simp

text \<open>
  C4 fails as stated for a response with a success status whose body is not JSON text:
  a 204 without body, as a deletion may answer, makes \<^verbatim>\<open>response.json()\<close> reject, and
  \<open>safeFetchCall\<close> neither returns an error value nor a parsed body; the promise of
  \<open>KnowledgeBaseClient.delete\<close> is rejected with the parser's \<^verbatim>\<open>SyntaxError\<close>.
\<close>

theorem safeFetchCall_normalises_counterexample:
  "ok \<lparr>status = 204, statusText = ''No Content'', body = None, json = None\<rparr> \<and>
   safeFetchCall (Fulfilled \<lparr>status = 204, statusText = ''No Content'', body = None, json = None\<rparr>)
     = Rejected SyntaxError \<and>
   fst (KnowledgeBaseClient_delete (KnowledgeBase (pai ''key''))
         (server \<lparr>status = 204, statusText = ''No Content'', body = None, json = None\<rparr>) 42)
     = Rejected SyntaxError"
  by (simp add: ok_def safeFetchCall_def KnowledgeBaseClient_delete_def Let_def call_fetch_def
      server_def)

text \<open>
  C4, amended. \<open>safeFetchCall\<close> on a resolved response: when the status is not a success
  status the result is an error value whose message is the response's status text; when
  it is and the body parses as JSON, the result is the parsed value itself, unchanged;
  when it is and the body does not parse, the promise is rejected with the parser's
  \<^verbatim>\<open>SyntaxError\<close>.
\<close>

theorem safeFetchCall_normalises:
  "(\<not> ok r \<longrightarrow> safeFetchCall (Fulfilled r) = Fulfilled (Error (statusText r))) \<and>
   (ok r \<longrightarrow> json r = Some v \<longrightarrow> safeFetchCall (Fulfilled r) = Fulfilled (Value v)) \<and>
   (ok r \<longrightarrow> json r = None \<longrightarrow> safeFetchCall (Fulfilled r) = Rejected SyntaxError)"
  by (simp add: safeFetchCall_def)

text \<open>
  C4 amended, at a 404 response with status text \<^verbatim>\<open>Not Found\<close> to \<open>get\<close> of knowledge base 42,
  at a 200 response carrying a knowledge base object to \<open>create\<close>, and at a 200 response
  with an empty body to \<open>get\<close> of knowledge 5.
\<close>

theorem safeFetchCall_normalises_witness:
  "fst (KnowledgeBaseClient_get (KnowledgeBase (pai ''key''))
         (server \<lparr>status = 404, statusText = ''Not Found'', body = Some [''gone''], json = None\<rparr>) 42)
     = Fulfilled (Error ''Not Found'') \<and>
   fst (KnowledgeBaseClient_create (KnowledgeBase (pai ''key''))
         (server \<lparr>status = 200, statusText = ''OK'', body = Some [''kb1''],
            json = Some (JObject [(''id'', JNumber 1), (''owner_id'', JNumber 5),
              (''name'', JString ''kb1''), (''created'', JString ''t1''),
              (''updated'', JString ''t1''), (''knowledges'', JArray [])])\<rparr>) ''kb1'')
     = Fulfilled (Value (JObject [(''id'', JNumber 1), (''owner_id'', JNumber 5),
              (''name'', JString ''kb1''), (''created'', JString ''t1''),
              (''updated'', JString ''t1''), (''knowledges'', JArray [])])) \<and>
   fst (KnowledgeClient_get (Knowledge (pai ''key''))
         (server \<lparr>status = 200, statusText = ''OK'', body = Some [], json = None\<rparr>) 5)
     = Rejected SyntaxError"
  using safeFetchCall_normalises [of "\<lparr>status = 404, statusText = ''Not Found'', body = Some [''gone''], json = None\<rparr>"]
    safeFetchCall_normalises [of "\<lparr>status = 200, statusText = ''OK'', body = Some [''kb1''],
            json = Some (JObject [(''id'', JNumber 1), (''owner_id'', JNumber 5),
              (''name'', JString ''kb1''), (''created'', JString ''t1''),
              (''updated'', JString ''t1''), (''knowledges'', JArray [])])\<rparr>"
        "JObject [(''id'', JNumber 1), (''owner_id'', JNumber 5),
              (''name'', JString ''kb1''), (''created'', JString ''t1''),
              (''updated'', JString ''t1''), (''knowledges'', JArray [])]"]
    safeFetchCall_normalises [of "\<lparr>status = 200, statusText = ''OK'', body = Some [], json = None\<rparr>"]
  by (simp add: KnowledgeBaseClient_get_def KnowledgeBaseClient_create_def KnowledgeClient_get_def
      Let_def call_fetch_def server_def ok_def)

text \<open>
  C5 fails as stated: a supplied optional parameter is left out of the body when its value
  is falsy. \<open>ReplyClient.create\<close> called with \<open>conversation_id = 0\<close> sends a body with the
  prompt alone, and \<open>KnowledgeClient.create\<close> called with \<open>recursion = false\<close> sends
  the name and the url alone.
\<close>

theorem creation_body_truthy_members_counterexample:
  "map req_body (snd (ReplyClient_create (Reply (pai ''key'')) offline ''hi'' (Some 0) None None None
     None)) = [Some (JObject [(''user_prompt'', JString ''hi'')])] \<and>
   map req_body (snd (KnowledgeClient_create (Knowledge (pai ''key'')) offline ''url'' ''doc'' 7
     (Some ''https://example.com/'') None (Some False) None None)) =
     [Some (JObject [(''name'', JString ''doc''), (''url'', JString ''https://example.com/'')])]"
  by (simp add: ReplyClient_create_def reply_body_def assign_number_def assign_string_def
      assign_boolean_def KnowledgeClient_create_def isValidURL_def offline_def sample_parser_def
      Let_def)

text \<open>
  C5, amended. For a well-formed creation request the body is the required members followed
  by one member for each optional parameter of the selected mode that was supplied with
  a truthy value (\<open>true\<close>, a number other than zero, a non-empty string), in the order of
  the source; an optional parameter that is omitted, or supplied falsy, contributes no
  member at all, so none appears as \<open>null\<close> or empty.
\<close>

theorem creation_body_truthy_members:
  "(u \<noteq> [] \<and> URL_parses env u \<longrightarrow>
      map req_body (snd (KnowledgeClient_create c env ''url'' name kb_id (Some u) text recursion
        max_recursion only_base_url)) =
      [Some (JObject ((''name'', JString name) # (''url'', JString u)
         # member_boolean ''recursion'' recursion
         @ member_number ''max_recursion'' max_recursion
         @ member_boolean ''only_base_url'' only_base_url))]) \<and>
   (t \<noteq> [] \<longrightarrow>
      map req_body (snd (KnowledgeClient_create c env ''text'' name kb_id url (Some t) recursion
        max_recursion only_base_url)) =
      [Some (JObject [(''name'', JString name), (''text'', JString t)])]) \<and>
   map req_body (snd (ReplyClient_create c env prompt conversation_id knowledge_base max_tokens
     num_results model)) =
     [Some (JObject ((''user_prompt'', JString prompt)
        # member_number ''conversation_id'' conversation_id
        @ member_string ''knowledge_base'' knowledge_base
        @ member_number ''max_tokens'' max_tokens
        @ member_number ''num_results'' num_results
        @ member_string ''model'' model))] \<and>
   map req_body (snd (ReplyClient_stream c env prompt conversation_id knowledge_base max_tokens
     num_results model)) =
     [Some (JObject ((''user_prompt'', JString prompt)
        # member_number ''conversation_id'' conversation_id
        @ member_string ''knowledge_base'' knowledge_base
        @ member_number ''max_tokens'' max_tokens
        @ member_number ''num_results'' num_results
        @ member_string ''model'' model))]"
proof (intro conjI impI)
  assume "u \<noteq> [] \<and> URL_parses env u"
  then show "map req_body (snd (KnowledgeClient_create c env ''url'' name kb_id (Some u) text
        recursion max_recursion only_base_url)) =
      [Some (JObject ((''name'', JString name) # (''url'', JString u)
         # member_boolean ''recursion'' recursion
         @ member_number ''max_recursion'' max_recursion
         @ member_boolean ''only_base_url'' only_base_url))]"
    by (simp add: KnowledgeClient_create_url Let_def)
next
  assume "t \<noteq> []"
  then show "map req_body (snd (KnowledgeClient_create c env ''text'' name kb_id url (Some t)
        recursion max_recursion only_base_url)) =
      [Some (JObject [(''name'', JString name), (''text'', JString t)])]"
    by (simp add: KnowledgeClient_create_text Let_def)
next
  show "map req_body (snd (ReplyClient_create c env prompt conversation_id knowledge_base
     max_tokens num_results model)) =
     [Some (JObject ((''user_prompt'', JString prompt)
        # member_number ''conversation_id'' conversation_id
        @ member_string ''knowledge_base'' knowledge_base
        @ member_number ''max_tokens'' max_tokens
        @ member_number ''num_results'' num_results
        @ member_string ''model'' model))]"
    by (simp add: ReplyClient_create_def Let_def reply_body_members)
next
  show "map req_body (snd (ReplyClient_stream c env prompt conversation_id knowledge_base
     max_tokens num_results model)) =
     [Some (JObject ((''user_prompt'', JString prompt)
        # member_number ''conversation_id'' conversation_id
        @ member_string ''knowledge_base'' knowledge_base
        @ member_number ''max_tokens'' max_tokens
        @ member_number ''num_results'' num_results
        @ member_string ''model'' model))]"
    by (simp add: ReplyClient_stream_def Let_def reply_body_members)
qed

text \<open>
  C5 amended, at concrete inputs of all four creation requests.
\<close>

theorem creation_body_truthy_members_witness:
  "map req_body (snd (KnowledgeClient_create (Knowledge (pai ''key'')) offline ''url'' ''doc'' 7
     (Some ''https://example.com/'') (Some ''ignored'') (Some True) (Some 0) None)) =
     [Some (JObject [(''name'', JString ''doc''), (''url'', JString ''https://example.com/''),
        (''recursion'', JBool True)])] \<and>
   map req_body (snd (KnowledgeClient_create (Knowledge (pai ''key'')) offline ''text'' ''doc'' 7
     None (Some ''hello'') (Some True) (Some 3) None)) =
     [Some (JObject [(''name'', JString ''doc''), (''text'', JString ''hello'')])] \<and>
   map req_body (snd (ReplyClient_create (Reply (pai ''key'')) offline ''hi'' (Some 12) (Some '''')
     None (Some 4) (Some ''m1''))) =
     [Some (JObject [(''user_prompt'', JString ''hi''), (''conversation_id'', JNumber 12),
        (''num_results'', JNumber 4), (''model'', JString ''m1'')])] \<and>
   map req_body (snd (ReplyClient_stream (Reply (pai ''key'')) offline ''hi'' None (Some ''kb1'')
     (Some 256) None None)) =
     [Some (JObject [(''user_prompt'', JString ''hi''), (''knowledge_base'', JString ''kb1''),
        (''max_tokens'', JNumber 256)])]"
  using creation_body_truthy_members [where u = "''https://example.com/''" and env = offline
      and c = "Knowledge (pai ''key'')" and name = "''doc''" and kb_id = 7
      and ?text = "Some ''ignored''" and recursion = "Some True" and max_recursion = "Some 0"
      and only_base_url = None]
    creation_body_truthy_members [where t = "''hello''" and env = offline
      and c = "Knowledge (pai ''key'')" and name = "''doc''" and kb_id = 7
      and url = None and recursion = "Some True" and max_recursion = "Some 3"
      and only_base_url = None]
    creation_body_truthy_members [where env = offline and c = "Reply (pai ''key'')"
      and prompt = "''hi''" and conversation_id = "Some 12" and knowledge_base = "Some ''''"
      and max_tokens = None and num_results = "Some 4" and model = "Some ''m1''"]
    creation_body_truthy_members [where env = offline and c = "Reply (pai ''key'')"
      and prompt = "''hi''" and conversation_id = None and knowledge_base = "Some ''kb1''"
      and max_tokens = "Some 256" and num_results = None and model = None]
  by (simp add: offline_def sample_parser_def member_boolean_def member_number_def
      member_string_def truthy_boolean_def truthy_number_def truthy_string_def)

text \<open>
  C6 fails as stated for a body that is present but empty: a 200 response whose body stream
  delivers no chunk is not \<^verbatim>\<open>null\<close>, and \<open>ReplyClient.create\<close> returns that response, not
  the error.
\<close>

theorem reply_no_body_error_counterexample:
  "fst (ReplyClient_create (Reply (pai ''key''))
         (server \<lparr>status = 200, statusText = ''OK'', body = Some [], json = None\<rparr>)
         ''hi'' None None None None None) =
     Fulfilled (Value (Response \<lparr>status = 200, statusText = ''OK'', body = Some [], json = None\<rparr>))"
  by (simp add: ReplyClient_create_def Let_def call_fetch_def server_def)

text \<open>
  C6, amended. When the response to \<open>ReplyClient.create\<close> or \<open>ReplyClient.stream\<close> has no
  body (\<^verbatim>\<open>null\<close>), the call returns the error \<^verbatim>\<open>No response body.\<close>, whatever
  \<^verbatim>\<open>response.json()\<close> would give; when it has a body, even an empty one, \<open>create\<close> returns the
  response itself and \<open>stream\<close> returns a streaming text response on the body.
\<close>

theorem reply_no_body_error:
  "(answered env (ReplyClient_create c env prompt conversation_id knowledge_base max_tokens
       num_results model) r \<longrightarrow>
      fst (ReplyClient_create c env prompt conversation_id knowledge_base max_tokens num_results
       model) =
      (case body r of
         None \<Rightarrow> Fulfilled (Error ''No response body.'')
       | Some chunks \<Rightarrow> Fulfilled (Value (Response r)))) \<and>
   (answered env (ReplyClient_stream c env prompt conversation_id knowledge_base max_tokens
       num_results model) r \<longrightarrow>
      fst (ReplyClient_stream c env prompt conversation_id knowledge_base max_tokens num_results
       model) =
      (case body r of
         None \<Rightarrow> Fulfilled (Error ''No response body.'')
       | Some chunks \<Rightarrow> Fulfilled (Value (StreamingTextResponse chunks))))"
  by (simp add: ReplyClient_create_answered ReplyClient_stream_answered)

text \<open>
  C6 amended, at a 204 response without body and a 200 response streaming \<^verbatim>\<open>Hel\<close>, \<^verbatim>\<open>lo\<close>;
  neither parses as JSON.
\<close>

theorem reply_no_body_error_witness:
  "fst (ReplyClient_create (Reply (pai ''key''))
         (server \<lparr>status = 204, statusText = ''No Content'', body = None, json = None\<rparr>)
         ''hi'' None None None None None) = Fulfilled (Error ''No response body.'') \<and>
   fst (ReplyClient_stream (Reply (pai ''key''))
         (server \<lparr>status = 204, statusText = ''No Content'', body = None, json = None\<rparr>)
         ''hi'' None None None None None) = Fulfilled (Error ''No response body.'') \<and>
   fst (ReplyClient_create (Reply (pai ''key''))
         (server \<lparr>status = 200, statusText = ''OK'', body = Some [''Hel'', ''lo''], json = None\<rparr>)
         ''hi'' None None None None None) =
     Fulfilled (Value (Response
       \<lparr>status = 200, statusText = ''OK'', body = Some [''Hel'', ''lo''], json = None\<rparr>)) \<and>
   fst (ReplyClient_stream (Reply (pai ''key''))
         (server \<lparr>status = 200, statusText = ''OK'', body = Some [''Hel'', ''lo''], json = None\<rparr>)
         ''hi'' None None None None None) =
     Fulfilled (Value (StreamingTextResponse [''Hel'', ''lo'']))"
  using reply_no_body_error [where c = "Reply (pai ''key'')"
      and env = "server \<lparr>status = 204, statusText = ''No Content'', body = None, json = None\<rparr>"
      and r = "\<lparr>status = 204, statusText = ''No Content'', body = None, json = None\<rparr>"
      and prompt = "''hi''" and conversation_id = None and knowledge_base = None
      and max_tokens = None and num_results = None and model = None]
    reply_no_body_error [where c = "Reply (pai ''key'')"
      and env = "server \<lparr>status = 200, statusText = ''OK'', body = Some [''Hel'', ''lo''], json = None\<rparr>"
      and r = "\<lparr>status = 200, statusText = ''OK'', body = Some [''Hel'', ''lo''], json = None\<rparr>"
      and prompt = "''hi''" and conversation_id = None and knowledge_base = None
      and max_tokens = None and num_results = None and model = None]
  by (simp add: answered_def server_def ReplyClient_create_requests
      ReplyClient_stream_requests)

text \<open>
  C7 fails as stated for the reply endpoints: a 500 response that has a body is returned by
  \<open>ReplyClient.create\<close> as a value, not as an error.
\<close>

theorem failure_status_surfaced_counterexample:
  "\<not> ok \<lparr>status = 500, statusText = ''Internal Server Error'', body = Some [''oops''], json = None\<rparr> \<and>
   fst (ReplyClient_create (Reply (pai ''key''))
         (server \<lparr>status = 500, statusText = ''Internal Server Error'', body = Some [''oops''],
            json = None\<rparr>)
         ''hi'' None None None None None) =
     Fulfilled (Value (Response
       \<lparr>status = 500, statusText = ''Internal Server Error'', body = Some [''oops''], json = None\<rparr>))"
  by (simp add: ok_def ReplyClient_create_def Let_def call_fetch_def server_def)

text \<open>
  C7, amended. For every operation of \<open>KnowledgeBaseClient\<close> and \<open>KnowledgeClient\<close>, a response
  with a non-success status is returned as an error value carrying the status text, never
  as a value. The reply endpoints do not read the status: such a response gives the error
  \<^verbatim>\<open>No response body.\<close> when it has no body, and is handed on (the response itself by
  \<open>create\<close>, a stream on its body by \<open>stream\<close>) when it has one.
\<close>

theorem failure_status_surfaced:
  assumes "\<not> ok r"
  shows
  "(answered env (KnowledgeBaseClient_create c env name) r \<longrightarrow>
      fst (KnowledgeBaseClient_create c env name) = Fulfilled (Error (statusText r))) \<and>
   (answered env (KnowledgeBaseClient_get c env kb_id) r \<longrightarrow>
      fst (KnowledgeBaseClient_get c env kb_id) = Fulfilled (Error (statusText r))) \<and>
   (answered env (KnowledgeBaseClient_delete c env kb_id) r \<longrightarrow>
      fst (KnowledgeBaseClient_delete c env kb_id) = Fulfilled (Error (statusText r))) \<and>
   (answered env (KnowledgeClient_create c env method name kb_id url text recursion max_recursion
        only_base_url) r \<longrightarrow>
      fst (KnowledgeClient_create c env method name kb_id url text recursion max_recursion
        only_base_url) = Fulfilled (Error (statusText r))) \<and>
   (answered env (KnowledgeClient_get c env knowledge_id) r \<longrightarrow>
      fst (KnowledgeClient_get c env knowledge_id) = Fulfilled (Error (statusText r))) \<and>
   (answered env (KnowledgeClient_delete c env knowledge_id) r \<longrightarrow>
      fst (KnowledgeClient_delete c env knowledge_id) = Fulfilled (Error (statusText r))) \<and>
   (answered env (ReplyClient_create c env prompt conversation_id knowledge_base max_tokens
        num_results model) r \<longrightarrow>
      fst (ReplyClient_create c env prompt conversation_id knowledge_base max_tokens num_results
        model) =
      (case body r of
         None \<Rightarrow> Fulfilled (Error ''No response body.'')
       | Some chunks \<Rightarrow> Fulfilled (Value (Response r)))) \<and>
   (answered env (ReplyClient_stream c env prompt conversation_id knowledge_base max_tokens
        num_results model) r \<longrightarrow>
      fst (ReplyClient_stream c env prompt conversation_id knowledge_base max_tokens num_results
        model) =
      (case body r of
         None \<Rightarrow> Fulfilled (Error ''No response body.'')
       | Some chunks \<Rightarrow> Fulfilled (Value (StreamingTextResponse chunks))))"
proof -
  from assms have failed: "safeFetchCall (Fulfilled r) = Fulfilled (Error (statusText r))"
    by (simp add: safeFetchCall_def)
  show ?thesis
    by (simp add: failed KnowledgeBaseClient_create_answered KnowledgeBaseClient_get_answered
        KnowledgeBaseClient_delete_answered KnowledgeClient_create_answered
        KnowledgeClient_get_answered KnowledgeClient_delete_answered
        ReplyClient_create_answered ReplyClient_stream_answered)
qed

text \<open>
  C7 amended, at a 404 response without body, for all nine operations.
\<close>

theorem failure_status_surfaced_witness:
  "\<not> ok \<lparr>status = 404, statusText = ''Not Found'', body = None, json = None\<rparr> \<and>
   fst (KnowledgeBaseClient_create (KnowledgeBase (pai ''key''))
         (server \<lparr>status = 404, statusText = ''Not Found'', body = None, json = None\<rparr>) ''kb1'') =
     Fulfilled (Error ''Not Found'') \<and>
   fst (KnowledgeBaseClient_get (KnowledgeBase (pai ''key''))
         (server \<lparr>status = 404, statusText = ''Not Found'', body = None, json = None\<rparr>) 42) =
     Fulfilled (Error ''Not Found'') \<and>
   fst (KnowledgeBaseClient_delete (KnowledgeBase (pai ''key''))
         (server \<lparr>status = 404, statusText = ''Not Found'', body = None, json = None\<rparr>) 42) =
     Fulfilled (Error ''Not Found'') \<and>
   fst (KnowledgeClient_create (Knowledge (pai ''key''))
         (server \<lparr>status = 404, statusText = ''Not Found'', body = None, json = None\<rparr>)
         ''text'' ''kb1'' 42 None (Some ''hello'') None None None) =
     Fulfilled (Error ''Not Found'') \<and>
   fst (KnowledgeClient_get (Knowledge (pai ''key''))
         (server \<lparr>status = 404, statusText = ''Not Found'', body = None, json = None\<rparr>) 5) =
     Fulfilled (Error ''Not Found'') \<and>
   fst (KnowledgeClient_delete (Knowledge (pai ''key''))
         (server \<lparr>status = 404, statusText = ''Not Found'', body = None, json = None\<rparr>) 5) =
     Fulfilled (Error ''Not Found'') \<and>
   fst (ReplyClient_create (Reply (pai ''key''))
         (server \<lparr>status = 404, statusText = ''Not Found'', body = None, json = None\<rparr>)
         ''hi'' None None None None None) =
     Fulfilled (Error ''No response body.'') \<and>
   fst (ReplyClient_stream (Reply (pai ''key''))
         (server \<lparr>status = 404, statusText = ''Not Found'', body = None, json = None\<rparr>)
         ''hi'' None None None None None) =
     Fulfilled (Error ''No response body.'')"
  using failure_status_surfaced [where c = "KnowledgeBase (pai ''key'')"
      and r = "\<lparr>status = 404, statusText = ''Not Found'', body = None, json = None\<rparr>"
      and env = "server \<lparr>status = 404, statusText = ''Not Found'', body = None, json = None\<rparr>"
      and name = "''kb1''" and kb_id = 42]
    failure_status_surfaced [of
      "\<lparr>status = 404, statusText = ''Not Found'', body = None, json = None\<rparr>"
      "server \<lparr>status = 404, statusText = ''Not Found'', body = None, json = None\<rparr>"
      "Knowledge (pai ''key'')" "''kb1''" 42 "''text''" None "Some ''hello''" None None None 5]
    failure_status_surfaced [where c = "Reply (pai ''key'')"
      and r = "\<lparr>status = 404, statusText = ''Not Found'', body = None, json = None\<rparr>"
      and env = "server \<lparr>status = 404, statusText = ''Not Found'', body = None, json = None\<rparr>"
      and prompt = "''hi''" and conversation_id = None and knowledge_base = None
      and max_tokens = None and num_results = None and model = None]
  by (simp add: ok_def answered_def server_def KnowledgeBaseClient_create_requests
      KnowledgeBaseClient_get_requests KnowledgeBaseClient_delete_requests
      KnowledgeClient_create_requests KnowledgeClient_get_requests
      KnowledgeClient_delete_requests ReplyClient_create_requests ReplyClient_stream_requests
      truthy_string_def)




text \<open>
  C9. With a client built from a credential, every request of every operation carries
  \<^verbatim>\<open>Content-Type: application/json\<close>, \<^verbatim>\<open>Authorization\<close> equal to the credential, and
  \<^verbatim>\<open>Accept: application/json\<close>, except that \<open>ReplyClient.stream\<close> sends
  \<^verbatim>\<open>Accept: text/response-stream\<close>.
\<close>

theorem requests_carry_headers:
  "list_all (carries api_key ''application/json'')
     (snd (KnowledgeBaseClient_create (BaseClient_new api_key url) env name)) \<and>
   list_all (carries api_key ''application/json'')
     (snd (KnowledgeBaseClient_get (BaseClient_new api_key url) env kb_id)) \<and>
   list_all (carries api_key ''application/json'')
     (snd (KnowledgeBaseClient_delete (BaseClient_new api_key url) env kb_id)) \<and>
   list_all (carries api_key ''application/json'')
     (snd (KnowledgeClient_create (BaseClient_new api_key url) env method name kb_id url_arg text
        recursion max_recursion only_base_url)) \<and>
   list_all (carries api_key ''application/json'')
     (snd (KnowledgeClient_get (BaseClient_new api_key url) env knowledge_id)) \<and>
   list_all (carries api_key ''application/json'')
     (snd (KnowledgeClient_delete (BaseClient_new api_key url) env knowledge_id)) \<and>
   list_all (carries api_key ''application/json'')
     (snd (ReplyClient_create (BaseClient_new api_key url) env prompt conversation_id
        knowledge_base max_tokens num_results model)) \<and>
   list_all (carries api_key ''text/response-stream'')
     (snd (ReplyClient_stream (BaseClient_new api_key url) env prompt conversation_id
        knowledge_base max_tokens num_results model))"
proof (intro conjI)
  show "list_all (carries api_key ''application/json'')
     (snd (KnowledgeBaseClient_create (BaseClient_new api_key url) env name))"
    by (simp add: KnowledgeBaseClient_create_requests carries_default)
  show "list_all (carries api_key ''application/json'')
     (snd (KnowledgeBaseClient_get (BaseClient_new api_key url) env kb_id))"
    by (simp add: KnowledgeBaseClient_get_requests carries_default)
  show "list_all (carries api_key ''application/json'')
     (snd (KnowledgeBaseClient_delete (BaseClient_new api_key url) env kb_id))"
    by (simp add: KnowledgeBaseClient_delete_requests carries_default)
  show "list_all (carries api_key ''application/json'')
     (snd (KnowledgeClient_create (BaseClient_new api_key url) env method name kb_id url_arg text
        recursion max_recursion only_base_url))"
    by (simp add: KnowledgeClient_create_requests carries_default)
  show "list_all (carries api_key ''application/json'')
     (snd (KnowledgeClient_get (BaseClient_new api_key url) env knowledge_id))"
    by (simp add: KnowledgeClient_get_requests carries_default)
  show "list_all (carries api_key ''application/json'')
     (snd (KnowledgeClient_delete (BaseClient_new api_key url) env knowledge_id))"
    by (simp add: KnowledgeClient_delete_requests carries_default)
  show "list_all (carries api_key ''application/json'')
     (snd (ReplyClient_create (BaseClient_new api_key url) env prompt conversation_id
        knowledge_base max_tokens num_results model))"
    by (simp add: ReplyClient_create_requests carries_def header_def BaseClient_new_def)
  show "list_all (carries api_key ''text/response-stream'')
     (snd (ReplyClient_stream (BaseClient_new api_key url) env prompt conversation_id
        knowledge_base max_tokens num_results model))"
    by (simp add: ReplyClient_stream_requests carries_def header_def BaseClient_new_def)
qed

text \<open>
  C9, at a text-mode creation and a streamed reply with the credential \<^verbatim>\<open>key\<close>.
\<close>

theorem requests_carry_headers_witness:
  "map req_headers (snd (KnowledgeClient_create (Knowledge (pai ''key'')) offline ''text'' ''doc'' 7
      None (Some ''hello'') None None None)) =
     [[(''Content-Type'', ''application/json''), (''Accept'', ''application/json''),
       (''Authorization'', ''key'')]] \<and>
   list_all (carries ''key'' ''application/json'')
     (snd (KnowledgeClient_create (Knowledge (pai ''key'')) offline ''text'' ''doc'' 7
      None (Some ''hello'') None None None)) \<and>
   map req_headers (snd (ReplyClient_stream (Reply (pai ''key'')) offline ''hi'' None None None
      None None)) =
     [[(''Content-Type'', ''application/json''), (''Accept'', ''text/response-stream''),
       (''Authorization'', ''key'')]] \<and>
   list_all (carries ''key'' ''text/response-stream'')
     (snd (ReplyClient_stream (Reply (pai ''key'')) offline ''hi'' None None None None None))"
  using requests_carry_headers [of "''key''" "''https://api.prism-ai.ch''" offline "''doc''" 7
      "''text''" None "Some ''hello''" None None None 5 "''hi''" None None None None None]
  by (simp add: pai_def Let_def KnowledgeClient_create_requests ReplyClient_stream_requests
      truthy_string_def BaseClient_new_def)

text \<open>
  C10. \<open>KnowledgeClient.create\<close> with method \<^verbatim>\<open>"text"\<close> and a non-empty text sends a body with
  exactly the members \<open>name\<close> and \<open>text\<close>, whatever url, recursion, max_recursion and
  only_base_url the caller passed; with method \<^verbatim>\<open>"url"\<close> no request body has a member
  \<open>text\<close>, whatever text the caller passed.
\<close>

theorem knowledge_create_body_by_mode:
  "(t \<noteq> [] \<longrightarrow>
      map req_body (snd (KnowledgeClient_create c env ''text'' name kb_id url (Some t) recursion
        max_recursion only_base_url)) =
      [Some (JObject [(''name'', JString name), (''text'', JString t)])]) \<and>
   list_all (\<lambda>q. ''text'' \<notin> set (body_keys q))
     (snd (KnowledgeClient_create c env ''url'' name kb_id url text recursion max_recursion
        only_base_url))"
  by (simp add: KnowledgeClient_create_text Let_def KnowledgeClient_create_requests body_keys_def
      image_Un keys_member)

text \<open>
  C10, at a call that supplies every parameter of both modes.
\<close>

theorem knowledge_create_body_by_mode_witness:
  "map req_body (snd (KnowledgeClient_create (Knowledge (pai ''key'')) offline ''text'' ''doc'' 7
      (Some ''https://example.com/'') (Some ''hello'') (Some True) (Some 3) (Some True))) =
     [Some (JObject [(''name'', JString ''doc''), (''text'', JString ''hello'')])] \<and>
   map body_keys (snd (KnowledgeClient_create (Knowledge (pai ''key'')) offline ''url'' ''doc'' 7
      (Some ''https://example.com/'') (Some ''hello'') (Some True) (Some 3) (Some True))) =
     [[''name'', ''url'', ''recursion'', ''max_recursion'', ''only_base_url'']] \<and>
   list_all (\<lambda>q. ''text'' \<notin> set (body_keys q))
     (snd (KnowledgeClient_create (Knowledge (pai ''key'')) offline ''url'' ''doc'' 7
      (Some ''https://example.com/'') (Some ''hello'') (Some True) (Some 3) (Some True)))"
  using knowledge_create_body_by_mode [where t = "''hello''" and c = "Knowledge (pai ''key'')"
      and env = offline and name = "''doc''" and kb_id = 7 and url = "Some ''https://example.com/''"
      and ?text = "Some ''hello''" and recursion = "Some True" and max_recursion = "Some 3"
      and only_base_url = "Some True"]
  by (simp add: KnowledgeClient_create_requests truthy_string_def offline_def sample_parser_def
      body_keys_def member_boolean_def member_number_def truthy_boolean_def truthy_number_def)

end
